theory Spec2Isabelle
  imports Main
begin

section \<open>Values shared by the whole package\<close>

text \<open>
  Go strings are byte strings and are modelled as \<open>string\<close>.  A \<open>reflect.Type\<close> is
  compared by identity, and two types may print alike (types of one name in two packages
  of one name): it is modelled by a text that tells it from every other type (its name
  with the import path of its package) and the text its \<open>String()\<close> method prints.
\<close>

datatype rtype = Type string string

fun typeString :: "rtype \<Rightarrow> string" where
  "typeString (Type path printed) = printed"

fun ptrTo :: "rtype \<Rightarrow> rtype" where
  "ptrTo (Type path printed) = Type (CHR ''*'' # path) (CHR ''*'' # printed)"

text \<open>
  The error values of the package.  The three sentinels and the two private ones of the
  struct visitor are created once with \<open>errors.New\<close> and compared by identity; every
  other constructor stands for one \<open>fmt.Errorf\<close> call site (or one conversion to
  \<open>UnknownCommandError\<close>) together with the arguments it is formatted from, a type
  among them as the text that is printed for it.
  \<open>HostError\<close> is an error made outside the package (by a handler, a hook or the flag
  library) with the given message.
\<close>

datatype error =
    ErrNoCommand
  | ErrHelp
  | ErrUnusedArguments
  | errNoPointer
  | errNoStruct
  | UnknownCommandError string
  | ArgumentNotFound string
  | RequiredAfterOptional string
  | InsufficientArguments nat nat
  | NoNameProvided string string
  | InvalidOptionType string string
  | OptionsNotPointer string string
  | OptionsNotStruct string
  | MustAcceptFirst string string
  | MustAcceptSecond string string
  | MustReturnAtMostOne string nat
  | MustReturnError string string string
  | InvalidHandler string error
  | HandlerNotFunction string string
  | AdditionalCommands error
  | NumErrorSyntax string
  | NumErrorRange string
  | ParsingIntArgument string error
  | PanicRunningAt string string int string
  | PanicRunning string string
  | HostError string

text \<open>
  What a \<open>panic\<close> carries: a string (or a value of another type, given by the text
  \<open>%v\<close> prints for it), an error, or a runtime error of the Go runtime (given by its
  message).  The value handed to \<open>panic\<close> is never the nil interface here (since Go 1.21
  the runtime replaces it by a \<open>*runtime.PanicNilError\<close>).
\<close>

datatype pval = PString string | PError error | PRuntime string

text \<open>A Go call either panics or returns.\<close>

datatype 'a res = Panics pval | Returns 'a

definition nilDeref :: pval where
  "nilDeref = PRuntime ''runtime error: invalid memory address or nil pointer dereference''"

section \<open>argument.go, arguments.go: positional arguments\<close>

record Argument =
  Name :: string
  Help :: string
  Optional :: bool

text \<open>
  A value of type \<open>[]*Argument\<close>: a slice of pointers, each of them possibly nil
  (\<open>None\<close>).  The nil slice and the empty slice are both \<open>[]\<close>; the code only ever
  ranges over the slice, takes its length and hands it to \<open>reflect.DeepEqual\<close>, and
  \<open>DeepEqual\<close> with the one-element \<open>NoArgs\<close> is false for both.
\<close>

type_synonym Arguments = "Argument option list"

definition NoArgs :: Arguments where
  "NoArgs = [None]"

text \<open>
  \<open>Args\<close> holds the leftover tokens and a pointer to the owning command.  The methods
  of \<open>Args\<close> read nothing of the command but its \<open>Args\<close> field, so the record keeps
  that field in place of the whole command.
\<close>

record Args =
  args :: "string list"
  cmd_Args :: Arguments

definition newArgs :: "string list \<Rightarrow> Arguments \<Rightarrow> Args" where
  "newArgs values cmdargs = \<lparr>args = values, cmd_Args = cmdargs\<rparr>"

text \<open>The loop of \<open>argumentPos\<close>, with the index of the current element.\<close>

fun argumentPosFrom :: "nat \<Rightarrow> Arguments \<Rightarrow> string \<Rightarrow> (error + nat) res" where
  "argumentPosFrom ii [] name = Returns (Inl (ArgumentNotFound name))"
| "argumentPosFrom ii (None # vs) name = Panics nilDeref"
| "argumentPosFrom ii (Some v # vs) name =
     (if Name v = name then Returns (Inr ii) else argumentPosFrom (Suc ii) vs name)"

definition argumentPos :: "Args \<Rightarrow> string \<Rightarrow> (error + nat) res" where
  "argumentPos a name = argumentPosFrom 0 (cmd_Args a) name"

text \<open>
  The loop of \<open>validate\<close>: \<open>hasOptional\<close> and \<open>req\<close> are its two variables; reading
  \<open>v.Optional\<close> through a nil pointer panics.
\<close>

fun validateLoop :: "Arguments \<Rightarrow> bool \<Rightarrow> nat \<Rightarrow> (error + nat) res" where
  "validateLoop [] hasOptional req = Returns (Inr req)"
| "validateLoop (None # vs) hasOptional req = Panics nilDeref"
| "validateLoop (Some v # vs) hasOptional req =
     (if Optional v then validateLoop vs True req
      else if hasOptional then Returns (Inl (RequiredAfterOptional (Name v)))
      else validateLoop vs hasOptional (Suc req))"

definition validate :: "Args \<Rightarrow> error option res" where
  "validate a =
     (if cmd_Args a = NoArgs \<and> length (args a) > 0 then Returns (Some ErrUnusedArguments)
      else let prov = length (args a) in
        case validateLoop (cmd_Args a) False 0 of
          Panics p \<Rightarrow> Panics p
        | Returns (Inl e) \<Rightarrow> Returns (Some e)
        | Returns (Inr req) \<Rightarrow>
            if req > prov then Returns (Some (InsufficientArguments req prov))
            else Returns None)"

text \<open>\<open>StringAt\<close>, at the positions \<open>String\<close> passes to it, which are not negative.\<close>

definition StringAt :: "Args \<Rightarrow> nat \<Rightarrow> string" where
  "StringAt a pos = (if pos \<ge> length (args a) then [] else args a ! pos)"

definition String :: "Args \<Rightarrow> string \<Rightarrow> string res" where
  "String a name =
     (case argumentPos a name of
        Panics p \<Rightarrow> Panics p
      | Returns (Inl err) \<Rightarrow> Panics (PError err)
      | Returns (Inr p) \<Rightarrow> Returns (StringAt a p))"

text \<open>
  \<open>strconv.Atoi\<close> of the standard library, for the 64-bit \<open>int\<close>.  After an optional
  sign the digits are read from the left, as \<open>ParseUint\<close> reads them in base 10: a byte
  that is no digit is an error of syntax, a value that leaves the unsigned 64 bits one
  of range, whichever comes first; the signed range is tested at the end.  The error is
  a \<open>*strconv.NumError\<close> for the whole token.
\<close>

definition isDigit :: "char \<Rightarrow> bool" where
  "isDigit c = (48 \<le> (of_char c :: nat) \<and> (of_char c :: nat) \<le> 57)"

fun parseUint :: "string \<Rightarrow> nat \<Rightarrow> string \<Rightarrow> error + nat" where
  "parseUint s0 n [] = Inr n"
| "parseUint s0 n (c # cs) =
     (if \<not> isDigit c then Inl (NumErrorSyntax s0)
      else if n \<ge> 1844674407370955162 then Inl (NumErrorRange s0)
      else if n * 10 + (of_char c - 48) > 18446744073709551615 then Inl (NumErrorRange s0)
      else parseUint s0 (n * 10 + (of_char c - 48)) cs)"

definition Atoi :: "string \<Rightarrow> error + int" where
  "Atoi s =
     (let neg = (s \<noteq> [] \<and> hd s = CHR ''-'');
          ds = (if s \<noteq> [] \<and> (hd s = CHR ''-'' \<or> hd s = CHR ''+'') then tl s else s)
      in if ds = [] then Inl (NumErrorSyntax s)
         else (case parseUint s 0 ds of
                 Inl err \<Rightarrow> Inl err
               | Inr un \<Rightarrow>
                   if \<not> neg \<and> un \<ge> 2 ^ 63 then Inl (NumErrorRange s)
                   else if neg \<and> un > 2 ^ 63 then Inl (NumErrorRange s)
                   else Inr (if neg then - int un else int un)))"

text \<open>\<open>Args.Int\<close> (\<open>Int\<close> alone is taken in HOL).\<close>

definition Args_Int :: "Args \<Rightarrow> string \<Rightarrow> int res" where
  "Args_Int a name =
     (case String a name of
        Panics p \<Rightarrow> Panics p
      | Returns s \<Rightarrow>
          (case Atoi s of
             Inl err \<Rightarrow> Panics (PError (ParsingIntArgument name err))
           | Inr val \<Rightarrow> Returns val))"

section \<open>command.go: exit status\<close>

text \<open>\<open>Exit\<close> ends the process; the model returns the status it hands to \<open>os.Exit\<close>.\<close>

definition Exit :: "error option \<Rightarrow> nat" where
  "Exit err =
     (case err of
        Some ErrHelp \<Rightarrow> 2
      | Some ErrNoCommand \<Rightarrow> 3
      | Some ErrUnusedArguments \<Rightarrow> 4
      | None \<Rightarrow> 0
      | Some _ \<Rightarrow> 1)"

section \<open>Reflection, the flag library and the runtime\<close>

text \<open>
  What \<open>reflect\<close> shows of a configuration value.  A struct field has its name, the
  text and kind of its type, its package path (empty exactly for an exported field), the
  \<open>name\<close> and \<open>help\<close> keys of its tag (empty when the key is absent), whether a pointer
  to it implements \<open>flag.Value\<close>, and its current value as text.
\<close>

datatype kind = KBool | KFloat64 | KInt | KUint | KInt64 | KUint64 | KString | KOther

record StructField =
  FieldName :: string
  FieldType :: string
  FieldKind :: kind
  PkgPath :: string
  TagName :: string
  TagHelp :: string
  IsFlagValue :: bool
  Current :: string

text \<open>
  A non-nil \<open>interface{}\<close> handed to \<open>reflect.ValueOf\<close>: a value that is not a pointer, or
  a pointer to a value of the named type, which is a struct (with its fields) or is not.
\<close>

datatype rvalue = NotPtr rtype | Ptr rtype "StructField list option"

fun typeOf :: "rvalue \<Rightarrow> rtype" where
  "typeOf (NotPtr t) = t"
| "typeOf (Ptr t fs) = ptrTo t"

text \<open>
  A \<open>flag.FlagSet\<close>: its name and the flags defined so far, each with its name, its usage
  text and the field it is bound to.
\<close>

record FlagSet =
  flagsName :: string
  formal :: "(string \<times> string \<times> StructField) list"

text \<open>A frame of the call stack: the name of its function when known, file and line.\<close>

record frame =
  frameFunc :: "string option"
  frameFile :: string
  frameLine :: int

type_synonym rune = nat

text \<open>
  What a run takes from outside the package: the case tables of \<open>unicode\<close>,
  \<open>strconv.Quote\<close> (the verb \<open>%q\<close>), \<open>filepath.Base(os.Args[0])\<close>, \<open>Parse\<close> of
  the flag library (an error, or the flag set with the bound fields written and the
  tokens left over), \<open>os.Args\<close>, the value of \<open>COMMAND_DUMP_HELP\<close>, and the frames
  \<open>runtime.Callers\<close> reports from index 0 inside \<open>getPanic\<close> should the run recover a
  panic (it recovers at most once): the frame of \<open>runtime.Callers\<close> first, then
  \<open>getPanic\<close>, then \<open>recoverRun\<close>, then outwards.
\<close>

record world =
  IsUpper :: "rune \<Rightarrow> bool"
  ToLower :: "rune \<Rightarrow> rune"
  Quote :: "string \<Rightarrow> string"
  progName :: string
  Parse :: "FlagSet \<Rightarrow> string list \<Rightarrow> error + FlagSet \<times> string list"
  osArgs :: "string list"
  dumpHelpVar :: string
  callers :: "frame list"

section \<open>UTF-8 as the standard library reads and writes it\<close>

definition RuneError :: rune where
  "RuneError = 65533"

definition byte :: "char \<Rightarrow> nat" where
  "byte c = of_char c"

definition between :: "nat \<Rightarrow> nat \<Rightarrow> char \<Rightarrow> bool" where
  "between lo hi c = (lo \<le> byte c \<and> byte c \<le> hi)"

text \<open>
  \<open>utf8.DecodeRuneInString\<close>: the first rune and its width in bytes; \<open>(RuneError, 0)\<close>
  on the empty string and \<open>(RuneError, 1)\<close> on an encoding that is invalid or cut short.
\<close>

definition DecodeRuneInString :: "string \<Rightarrow> rune \<times> nat" where
  "DecodeRuneInString s =
     (case s of
        [] \<Rightarrow> (RuneError, 0)
      | c0 # r \<Rightarrow>
          if byte c0 < 128 then (byte c0, 1)
          else if between 194 223 c0 then
            (case r of
               c1 # _ \<Rightarrow>
                 if between 128 191 c1
                 then ((byte c0 mod 32) * 64 + byte c1 mod 64, 2)
                 else (RuneError, 1)
             | _ \<Rightarrow> (RuneError, 1))
          else if between 224 239 c0 then
            (case r of
               c1 # c2 # _ \<Rightarrow>
                 if between (if byte c0 = 224 then 160 else 128)
                            (if byte c0 = 237 then 159 else 191) c1
                    \<and> between 128 191 c2
                 then ((byte c0 mod 16) * 4096 + (byte c1 mod 64) * 64 + byte c2 mod 64, 3)
                 else (RuneError, 1)
             | _ \<Rightarrow> (RuneError, 1))
          else if between 240 244 c0 then
            (case r of
               c1 # c2 # c3 # _ \<Rightarrow>
                 if between (if byte c0 = 240 then 144 else 128)
                            (if byte c0 = 244 then 143 else 191) c1
                    \<and> between 128 191 c2 \<and> between 128 191 c3
                 then ((byte c0 mod 8) * 262144 + (byte c1 mod 64) * 4096
                       + (byte c2 mod 64) * 64 + byte c3 mod 64, 4)
                 else (RuneError, 1)
             | _ \<Rightarrow> (RuneError, 1))
          else (RuneError, 1))"

text \<open>
  The conversion \<open>string(runes)\<close> writes each rune in UTF-8, a surrogate or a value
  beyond U+10FFFF as \<open>RuneError\<close>.
\<close>

definition encodeRune :: "rune \<Rightarrow> string" where
  "encodeRune r0 =
     (let r = (if (55296 \<le> r0 \<and> r0 \<le> 57343) \<or> r0 > 1114111 then RuneError else r0)
      in if r < 128 then [char_of r]
         else if r < 2048 then [char_of (192 + r div 64), char_of (128 + r mod 64)]
         else if r < 65536 then
           [char_of (224 + r div 4096), char_of (128 + (r div 64) mod 64),
            char_of (128 + r mod 64)]
         else
           [char_of (240 + r div 262144), char_of (128 + (r div 4096) mod 64),
            char_of (128 + (r div 64) mod 64), char_of (128 + r mod 64)])"

definition stringOfRunes :: "rune list \<Rightarrow> string" where
  "stringOfRunes runes = concat (map encodeRune runes)"

section \<open>Flag names of struct fields\<close>

text \<open>
  \<open>defaultFieldName\<close>: the loop runs while bytes of the name are left; \<open>name\<close> here is
  \<open>name[ii:]\<close> and \<open>runes\<close> the slice built so far.  45 is the hyphen.
\<close>

function defaultFieldNameLoop :: "world \<Rightarrow> string \<Rightarrow> rune list \<Rightarrow> rune list" where
  "defaultFieldNameLoop w name runes =
     (if name = [] then runes
      else
        defaultFieldNameLoop w (drop (snd (DecodeRuneInString name)) name)
          (if IsUpper w (fst (DecodeRuneInString name))
           then (if length runes > 0 then runes @ [45] else runes)
                  @ [ToLower w (fst (DecodeRuneInString name))]
           else runes @ [fst (DecodeRuneInString name)]))"
  by pat_completeness auto
termination
proof (relation "measure (\<lambda>(w, name, runes). length name)")
  show "wf (measure (\<lambda>(w, name, runes). length name))"
    by simp
next
  fix w :: world and name :: string and runes :: "rune list"
  assume "name \<noteq> []"
  then obtain c cs where "name = c # cs"
    by (cases name) auto
  then have "0 < snd (DecodeRuneInString name)"
    by (simp add: DecodeRuneInString_def split: list.splits)
  with \<open>name \<noteq> []\<close>
  show "((w, drop (snd (DecodeRuneInString name)) name,
          if IsUpper w (fst (DecodeRuneInString name))
          then (if length runes > 0 then runes @ [45] else runes)
                 @ [ToLower w (fst (DecodeRuneInString name))]
          else runes @ [fst (DecodeRuneInString name)]),
         w, name, runes) \<in> measure (\<lambda>(w, name, runes). length name)"
    by simp
qed

declare defaultFieldNameLoop.simps [simp del]

definition defaultFieldName :: "world \<Rightarrow> string \<Rightarrow> string" where
  "defaultFieldName w name = stringOfRunes (defaultFieldNameLoop w name [])"

text \<open>
  The derivation as the specification words it, on the runes of the identifier: every
  upper-case rune is put in lower case, after a hyphen unless it is the first rune.
\<close>

function runesOf :: "string \<Rightarrow> rune list" where
  "runesOf name =
     (if name = [] then []
      else fst (DecodeRuneInString name) # runesOf (drop (snd (DecodeRuneInString name)) name))"
  by pat_completeness auto
termination
proof (relation "measure length")
  show "wf (measure length)"
    by simp
next
  fix name :: string
  assume "name \<noteq> []"
  then obtain c cs where "name = c # cs"
    by (cases name) auto
  then have "0 < snd (DecodeRuneInString name)"
    by (simp add: DecodeRuneInString_def split: list.splits)
  with \<open>name \<noteq> []\<close>
  show "(drop (snd (DecodeRuneInString name)) name, name) \<in> measure length"
    by simp
qed

declare runesOf.simps [simp del]

definition hyphenate :: "world \<Rightarrow> nat \<times> rune \<Rightarrow> rune list" where
  "hyphenate w p =
     (if IsUpper w (snd p) then (if fst p = 0 then [] else [45]) @ [ToLower w (snd p)]
      else [snd p])"

definition specFieldName :: "world \<Rightarrow> rune list \<Rightarrow> rune list" where
  "specFieldName w rs = concat (map (hyphenate w) (enumerate 0 rs))"

section \<open>Messages\<close>

text \<open>The verb \<open>%d\<close>.\<close>

function showNat :: "nat \<Rightarrow> string" where
  "showNat n =
     (if n < 10 then [char_of (48 + n)] else showNat (n div 10) @ [char_of (48 + n mod 10)])"
  by pat_completeness auto
termination
  by (relation "measure id") auto

declare showNat.simps [simp del]

definition showInt :: "int \<Rightarrow> string" where
  "showInt i = (if i < 0 then CHR ''-'' # showNat (nat (- i)) else showNat (nat i))"

text \<open>
  The method \<open>Error()\<close> of each error value: the format string of its call site filled
  in.  \<open>%T\<close> of a \<open>reflect.Type\<close> prints the type of the descriptor itself.
\<close>

fun Error :: "world \<Rightarrow> error \<Rightarrow> string" where
  "Error w ErrNoCommand = ''no command provided''"
| "Error w ErrHelp = ''help has been shown''"
| "Error w ErrUnusedArguments = ''arguments provided but not used''"
| "Error w errNoPointer = ''not a pointer''"
| "Error w errNoStruct = ''not a struct''"
| "Error w (UnknownCommandError e) = ''unknown command '' @ e"
| "Error w (ArgumentNotFound name) = ''argument '' @ Quote w name @ '' not found''"
| "Error w (RequiredAfterOptional name) =
     ''required argument '' @ Quote w name @ '' comes after optional arguments''"
| "Error w (InsufficientArguments req prov) =
     showNat req @ '' arguments required, but only '' @ showNat prov @ '' provided''"
| "Error w (NoNameProvided f typ) =
     ''no name provided for field '' @ f @ '' in type '' @ typ"
| "Error w (InvalidOptionType f typ) =
     ''field '' @ f @ '' has invalid option type '' @ typ"
| "Error w (OptionsNotPointer name typ) =
     (if name \<noteq> [] then
        ''invalid command '' @ name @ '' options '' @ typ @ '', must be a pointer''
      else ''invalid options '' @ typ @ '', must be a pointer'')"
| "Error w (OptionsNotStruct name) =
     (if name \<noteq> [] then
        ''command '' @ name @ '' options field is not a struct, it's *reflect.rtype''
      else ''options field is not a struct, it's *reflect.rtype'')"
| "Error w (MustAcceptFirst f typ) =
     ''function '' @ f @ '' must accept '' @ typ @ '' as its first argument''"
| "Error w (MustAcceptSecond f typ) =
     ''function '' @ f @ '' must accept '' @ typ @ '' as its second argument''"
| "Error w (MustReturnAtMostOne f n) =
     ''function '' @ f @ '' must return 0 or 1 arguments, not '' @ showNat n"
| "Error w (MustReturnError f typ out) =
     ''function '' @ f @ '' must return a value of type '' @ typ @ '', not '' @ out"
| "Error w (InvalidHandler name err) =
     ''invalid handler for command '' @ name @ '': '' @ Error w err"
| "Error w (HandlerNotFunction name typ) =
     ''command handler '' @ name @ '' is not a function, it's '' @ typ"
| "Error w (AdditionalCommands err) =
     ''error obtaining additional commands: '' @ Error w err"
| "Error w (NumErrorSyntax s) = ''strconv.Atoi: parsing '' @ Quote w s @ '': invalid syntax''"
| "Error w (NumErrorRange s) = ''strconv.Atoi: parsing '' @ Quote w s @ '': value out of range''"
| "Error w (ParsingIntArgument name err) =
     ''error parsing int argument '' @ name @ '': '' @ Error w err"
| "Error w (PanicRunningAt name f l v) =
     ''panic running command '' @ name @ '' at '' @ f @ '':'' @ showInt l @ '': '' @ v"
| "Error w (PanicRunning name v) = ''panic running command '' @ name @ '': '' @ v"
| "Error w (HostError m) = m"

text \<open>The verb \<open>%v\<close> on a recovered panic value.\<close>

fun showPanic :: "world \<Rightarrow> pval \<Rightarrow> string" where
  "showPanic w (PString s) = s"
| "showPanic w (PError e) = Error w e"
| "showPanic w (PRuntime m) = m"

section \<open>Visiting the fields of a configuration struct\<close>

text \<open>
  A visitor gets the flag name, the help text and the field; the state it returns stands
  for what the Go closure writes to the variables it captures.  A visitor may panic.
\<close>

type_synonym 'st structVisitor =
  "string \<Rightarrow> string \<Rightarrow> StructField \<Rightarrow> 'st \<Rightarrow> (error + 'st) res"

text \<open>
  The loop of \<open>visitStruct\<close> over the fields of the struct type \<open>typ\<close>.  Taking
  \<open>fieldVal.Addr().Interface()\<close> of a field that is not exported panics in \<open>reflect\<close>.
\<close>

fun visitFields ::
  "world \<Rightarrow> string \<Rightarrow> 'st structVisitor \<Rightarrow> StructField list \<Rightarrow> 'st \<Rightarrow> (error + 'st) res" where
  "visitFields w typ visitor [] st = Returns (Inr st)"
| "visitFields w typ visitor (field # fs) st =
     (if PkgPath field \<noteq> [] then
        Panics (PString
          ''reflect.Value.Interface: cannot return value obtained from unexported field or method'')
      else
        let name = (if TagName field \<noteq> [] then TagName field
                    else defaultFieldName w (FieldName field));
            help = (if TagHelp field \<noteq> [] then TagHelp field else [])
        in if name = [] then Returns (Inl (NoNameProvided (FieldName field) typ))
           else (case visitor name help field st of
                   Panics p \<Rightarrow> Panics p
                 | Returns (Inl err) \<Rightarrow> Returns (Inl err)
                 | Returns (Inr st') \<Rightarrow> visitFields w typ visitor fs st'))"

text \<open>A pointer that is nil, or points to something else than a struct, is \<open>Ptr t None\<close>.\<close>

fun visitStruct :: "world \<Rightarrow> rvalue \<Rightarrow> 'st structVisitor \<Rightarrow> 'st \<Rightarrow> (error + 'st) res" where
  "visitStruct w (NotPtr t) visitor st = Returns (Inl errNoPointer)"
| "visitStruct w (Ptr t None) visitor st = Returns (Inl errNoStruct)"
| "visitStruct w (Ptr t (Some fs)) visitor st = visitFields w (typeString t) visitor fs st"

text \<open>
  The closure of \<open>setupOptionsFlags\<close>: a field is bound through \<open>flag.Value\<close> when its
  pointer implements it, else by its kind; defining a flag appends it to the set.  The
  pointer is asserted to point to the predeclared type of the kind (\<open>ptr.(*int64)\<close>);
  for a field of a defined type of that kind the assertion panics.  The predeclared
  types are the ones printed under their bare names.
\<close>

definition defineFlag :: "string \<Rightarrow> string \<Rightarrow> StructField \<Rightarrow> FlagSet \<Rightarrow> FlagSet" where
  "defineFlag name help field flags = flags\<lparr>formal := formal flags @ [(name, help, field)]\<rparr>"

definition bindAs ::
  "string \<Rightarrow> string \<Rightarrow> string \<Rightarrow> StructField \<Rightarrow> FlagSet \<Rightarrow> (error + FlagSet) res" where
  "bindAs predeclared name help field flags =
     (if FieldType field = predeclared then Returns (Inr (defineFlag name help field flags))
      else Panics (PRuntime (''interface conversion: interface {} is *'' @ FieldType field
                             @ '', not *'' @ predeclared)))"

definition flagVisitor :: "FlagSet structVisitor" where
  "flagVisitor name help field flags =
     (if IsFlagValue field then Returns (Inr (defineFlag name help field flags))
      else (case FieldKind field of
              KBool \<Rightarrow> bindAs ''bool'' name help field flags
            | KFloat64 \<Rightarrow> bindAs ''float64'' name help field flags
            | KInt \<Rightarrow> bindAs ''int'' name help field flags
            | KUint \<Rightarrow> bindAs ''uint'' name help field flags
            | KInt64 \<Rightarrow> bindAs ''int64'' name help field flags
            | KUint64 \<Rightarrow> bindAs ''uint64'' name help field flags
            | KString \<Rightarrow> bindAs ''string'' name help field flags
            | KOther \<Rightarrow>
                Returns (Inl (InvalidOptionType (FieldName field) (FieldType field)))))"

definition setupOptionsFlags :: "world \<Rightarrow> string \<Rightarrow> rvalue \<Rightarrow> (error + FlagSet) res" where
  "setupOptionsFlags w name sval =
     (let arg0 = progName w;
          flagsName = (if name \<noteq> [] then arg0 @ '' '' @ name @ '' subcommand'' else arg0);
          flags = \<lparr>flagsName = flagsName, formal = []\<rparr>
      in case visitStruct w sval flagVisitor flags of
           Panics p \<Rightarrow> Panics p
         | Returns (Inl err) \<Rightarrow>
             if err = errNoPointer
             then Returns (Inl (OptionsNotPointer name (typeString (typeOf sval))))
             else if err = errNoStruct then Returns (Inl (OptionsNotStruct name))
             else Returns (Inl err)
         | Returns (Inr fl) \<Rightarrow> Returns (Inr fl))"

text \<open>
  After a parse the configuration value holds what the flags wrote: the fields the flag
  set is bound to.
\<close>

fun parsedValue :: "rvalue \<Rightarrow> FlagSet \<Rightarrow> rvalue" where
  "parsedValue (Ptr t (Some fs)) flags = Ptr t (Some (map (\<lambda>d. snd (snd d)) (formal flags)))"
| "parsedValue v flags = v"

section \<open>command.go: commands\<close>

text \<open>
  The \<open>interface{}\<close> in \<open>Cmd.Func\<close>: not a function (with the text \<open>%T\<close> prints for it,
  \<open><nil>\<close> for nil), or a function with its name, the types of its parameters and of its
  results, and what a call does with the \<open>*Args\<close> and the configuration value it is
  handed.  Handlers are not variadic.
\<close>

datatype handler =
    NotFunc string
  | Fn string "rtype list" "rtype list" "Args \<Rightarrow> rvalue option \<Rightarrow> error option res"

record Cmd =
  Cmd_Name :: string
  Cmd_Help :: string
  LongHelp :: string
  Usage :: string
  Cmd_Args :: Arguments
  Func :: handler
  Cmd_Options :: "rvalue option"

definition hasArgs :: "Cmd \<Rightarrow> bool" where
  "hasArgs c = (length (Cmd_Args c) > 0 \<and> Cmd_Args c \<noteq> NoArgs)"

text \<open>
  \<open>Options\<close> of a run.  The hooks are given by what they do with the global
  configuration value (as the flags left it) and, for \<open>Func\<close>, the command; \<open>Provider\<close> is
  the result of \<open>Commands()\<close> when the global configuration value implements
  \<open>CommandProvider\<close>.
\<close>

record Options =
  Opt_Options :: "rvalue option"
  Provider :: "(error + Cmd list) option"
  Opt_Func :: "(Cmd \<Rightarrow> rvalue option \<Rightarrow> error option res) option"
  BeforeFunc :: "(rvalue option \<Rightarrow> error option res) option"

text \<open>A registry is a slice of non-nil command pointers.\<close>

fun commandByName :: "Cmd list \<Rightarrow> string \<Rightarrow> Cmd option" where
  "commandByName [] name = None"
| "commandByName (v # vs) name =
     (if Cmd_Name v = name then Some v else commandByName vs name)"

section \<open>Output and help\<close>

text \<open>
  What a run writes: text on the standard error stream, and, with the layout left out,
  the table of commands, the detailed help of one command and the JSON document of the
  dump (program name, global flags, commands with their flags).
\<close>

type_synonym flagHelp = "string \<times> string \<times> string \<times> string"

datatype written =
    Diag string
  | Listing "(string \<times> string) list"
  | CommandHelp string
  | Dump string "flagHelp list" "(string \<times> flagHelp list) list"

definition printCommandHelp :: "Cmd \<Rightarrow> written list" where
  "printCommandHelp c = [CommandHelp (Cmd_Name c)]"

definition printListing :: "Cmd list \<Rightarrow> written list" where
  "printListing commands =
     [Listing (map (\<lambda>v. (Cmd_Name v, Cmd_Help v)) commands @ [(''help'', ''Print this help'')]),
      Diag (CHR 0x0A # ''To view additional help for each command use help <command_name>''
            @ [CHR 0x0A])]"

definition printHelp :: "string list \<Rightarrow> Cmd list \<Rightarrow> error \<times> written list" where
  "printHelp as commands =
     (if length as = 0 then
        (ErrNoCommand,
         Diag (''missing command, available ones are:'' @ [CHR 0x0A, CHR 0x0A])
           # printListing commands)
      else
        let unknown = (if as ! 0 \<noteq> ''help'' \<and> commandByName commands (as ! 0) = None
                       then as ! 0 else [])
        in case (if length as > 1 \<and> as ! 0 = ''help''
                 then commandByName commands (as ! 1) else None) of
             Some c \<Rightarrow> (ErrHelp, printCommandHelp c)
           | None \<Rightarrow>
               let unknown' = (if length as > 1 \<and> as ! 0 = ''help'' then as ! 1 else unknown)
               in if unknown' \<noteq> [] then
                    (UnknownCommandError unknown',
                     Diag (''unknown command '' @ unknown' @ '', available ones are:''
                           @ [CHR 0x0A, CHR 0x0A]) # printListing commands)
                  else (ErrHelp, printListing commands))"

text \<open>help.go: the flags of a configuration value, and the dump.\<close>

definition flagsHelpVisitor :: "flagHelp list structVisitor" where
  "flagsHelpVisitor name help field flags =
     (if IsFlagValue field
      then Returns (Inr (flags @ [(name, help, ''string'', Current field)]))
      else (case FieldKind field of
              KOther \<Rightarrow> Returns (Inl (InvalidOptionType (FieldName field) (FieldType field)))
            | _ \<Rightarrow> Returns (Inr (flags @ [(name, help, FieldType field, Current field)]))))"

definition flagsHelp :: "world \<Rightarrow> rvalue \<Rightarrow> (error + flagHelp list) res" where
  "flagsHelp w opts = visitStruct w opts flagsHelpVisitor []"

definition commandHelp :: "world \<Rightarrow> Cmd \<Rightarrow> (error + string \<times> flagHelp list) res" where
  "commandHelp w c =
     (case Cmd_Options c of
        None \<Rightarrow> Returns (Inr (Cmd_Name c, []))
      | Some opts \<Rightarrow>
          (case flagsHelp w opts of
             Panics p \<Rightarrow> Panics p
           | Returns (Inl err) \<Rightarrow> Returns (Inl err)
           | Returns (Inr flags) \<Rightarrow> Returns (Inr (Cmd_Name c, flags))))"

fun commandHelps ::
  "world \<Rightarrow> Cmd list \<Rightarrow> (string \<times> flagHelp list) list
     \<Rightarrow> (error + (string \<times> flagHelp list) list) res" where
  "commandHelps w [] acc = Returns (Inr acc)"
| "commandHelps w (v # vs) acc =
     (case commandHelp w v of
        Panics p \<Rightarrow> Panics p
      | Returns (Inl err) \<Rightarrow> Returns (Inl err)
      | Returns (Inr h) \<Rightarrow> commandHelps w vs (acc @ [h]))"

definition dumpHelp :: "world \<Rightarrow> Options option \<Rightarrow> Cmd list \<Rightarrow> (error + written) res" where
  "dumpHelp w opts commands =
     (case (case opts of
              None \<Rightarrow> Returns (Inr [])
            | Some os \<Rightarrow>
                (case Opt_Options os of
                   None \<Rightarrow> Returns (Inr [])
                 | Some v \<Rightarrow> flagsHelp w v)) of
        Panics p \<Rightarrow> Panics p
      | Returns (Inl err) \<Rightarrow> Returns (Inl err)
      | Returns (Inr flags) \<Rightarrow>
          (case commandHelps w commands [] of
             Panics p \<Rightarrow> Panics p
           | Returns (Inl err) \<Rightarrow> Returns (Inl err)
           | Returns (Inr cs) \<Rightarrow> Returns (Inr (Dump (progName w) flags cs))))"

section \<open>Recovering a panic\<close>

definition HasPrefix :: "string \<Rightarrow> string \<Rightarrow> bool" where
  "HasPrefix s p = (take (length p) s = p)"

definition Contains :: "string \<Rightarrow> string \<Rightarrow> bool" where
  "Contains s sub = list_ex (\<lambda>i. take (length sub) (drop i s) = sub) [0..<Suc (length s)]"

text \<open>
  The inner loop of \<open>getPanic\<close>, from index \<open>ii\<close> down to 0 (the counter is \<open>ii + 1\<close>).
  The program counter among the results is left out.
\<close>

fun scanCalls :: "frame list \<Rightarrow> nat \<Rightarrow> nat \<Rightarrow> (int \<times> int \<times> bool) option" where
  "scanCalls calls skip 0 = None"
| "scanCalls calls skip (Suc ii) =
     (case frameFunc (calls ! ii) of
        None \<Rightarrow> scanCalls calls skip ii
      | Some name \<Rightarrow>
          if HasPrefix name ''runtime.'' \<and> Contains name ''panic'' then
            (let pcSkip = int skip + int ii - 1;
                 stackSkip = (if name = ''runtime.panic'' then pcSkip
                              else if name = ''runtime.sigpanic'' then pcSkip - 2
                              else pcSkip - 1)
             in Some (pcSkip, stackSkip, True))
          else scanCalls calls skip ii)"

text \<open>\<open>runtime.Callers(skip, callers)\<close> with the buffer of ten entries.\<close>

definition Callers :: "world \<Rightarrow> nat \<Rightarrow> frame list" where
  "Callers w skip = take 10 (drop skip (callers w))"

function getPanicFrom :: "world \<Rightarrow> nat \<Rightarrow> int \<times> int \<times> bool" where
  "getPanicFrom w skip =
     (if length (Callers w skip) = 0 then (0, 0, False)
      else (case scanCalls (Callers w skip) skip (length (Callers w skip)) of
              Some r \<Rightarrow> r
            | None \<Rightarrow> getPanicFrom w (skip + length (Callers w skip))))"
  by pat_completeness auto
termination
  by (relation "measure (\<lambda>(w, skip). length (callers w) - skip)") (auto simp: Callers_def)

declare getPanicFrom.simps [simp del]

definition getPanic :: "world \<Rightarrow> int \<times> int \<times> bool" where
  "getPanic w = getPanicFrom w 0"

text \<open>
  \<open>runtime.Caller(skip)\<close> as called in \<open>recoverRun\<close>: 0 is \<open>recoverRun\<close> itself, the
  third of the frames \<open>runtime.Callers\<close> counts from.
\<close>

definition Caller :: "world \<Rightarrow> int \<Rightarrow> frame option" where
  "Caller w skip =
     (if 0 \<le> skip + 2 \<and> nat (skip + 2) < length (callers w)
      then Some (callers w ! nat (skip + 2)) else None)"

text \<open>
  The frame \<open>recoverRun\<close> takes file and line from: the one \<open>getPanic\<close> points at, if
  it found one and \<open>runtime.Caller\<close> can report it.
\<close>

definition panicLocation :: "world \<Rightarrow> frame option" where
  "panicLocation w =
     (let skip = fst (getPanic w);
          ok = snd (snd (getPanic w))
      in if ok then Caller w skip else None)"

text \<open>
  \<open>recoverRun\<close> runs as the function it is deferred in ends, with what that function
  has written and with its outcome: a return (then \<open>recover()\<close> is nil and the named
  result stays) or a panic, which it turns into the named result.
\<close>

definition recoverRun ::
  "world \<Rightarrow> Cmd \<Rightarrow> error option res \<times> written list \<Rightarrow> error option res \<times> written list" where
  "recoverRun w c ro =
     (case fst ro of
        Returns err \<Rightarrow> ro
      | Panics r \<Rightarrow>
          let err = (case panicLocation w of
                       Some f \<Rightarrow>
                         PanicRunningAt (Cmd_Name c) (frameFile f) (frameLine f) (showPanic w r)
                     | None \<Rightarrow> PanicRunning (Cmd_Name c) (showPanic w r))
          in (Returns (Some err), snd ro @ [Diag (Error w err @ [CHR 0x0A])]))"

section \<open>command.go: checking a handler and running a command\<close>

definition errType :: rtype where
  "errType = Type ''error'' ''error''"

definition argsType :: rtype where
  "argsType = ptrTo (Type ''github.com/rainycape/command.Args'' ''command.Args'')"

text \<open>
  The two checks on a handler of kind \<open>Func\<close>, given \<open>funcName\<close> of it and the types of
  its results, or of its parameters with the configuration value (\<open>None\<close> is the invalid
  \<open>reflect.Value\<close>).
\<close>

definition validateCmdFuncReturn :: "string \<Rightarrow> rtype list \<Rightarrow> error option" where
  "validateCmdFuncReturn fname outs =
     (let numOut = length outs
      in if numOut = 0 then None
         else if numOut > 1 then Some (MustReturnAtMostOne fname numOut)
         else if outs ! 0 \<noteq> errType
         then Some (MustReturnError fname (typeString errType) (typeString (outs ! 0)))
         else None)"

definition validateCmdFuncInput :: "string \<Rightarrow> rtype list \<Rightarrow> rvalue option \<Rightarrow> error option" where
  "validateCmdFuncInput fname ins optsVal =
     (let numIn = length ins
      in if numIn < 1 \<or> ins ! 0 \<noteq> argsType
         then Some (MustAcceptFirst fname (typeString argsType))
         else (case optsVal of
                 None \<Rightarrow> None
               | Some v \<Rightarrow>
                   if numIn < 2 \<or> ins ! 1 \<noteq> typeOf v
                   then Some (MustAcceptSecond fname (typeString (typeOf v)))
                   else None))"

text \<open>
  Setting up the flags of a configuration value and parsing the tokens with them, as
  \<open>parseGlobalOptions\<close> and \<open>RunOpts\<close> both do: a failed setup panics, a failed parse is
  returned, and else the tokens left over come back with the value the flags wrote.
\<close>

definition parseWith ::
  "world \<Rightarrow> string \<Rightarrow> rvalue \<Rightarrow> string list \<Rightarrow> (error + string list \<times> rvalue) res" where
  "parseWith w name v as =
     (case setupOptionsFlags w name v of
        Panics p \<Rightarrow> Panics p
      | Returns (Inl err) \<Rightarrow> Panics (PError err)
      | Returns (Inr flags) \<Rightarrow>
          (case Parse w flags as of
             Inl err \<Rightarrow> Returns (Inl err)
           | Inr (flags', rest) \<Rightarrow> Returns (Inr (rest, parsedValue v flags'))))"

definition parseGlobalOptions ::
  "world \<Rightarrow> string list \<Rightarrow> Options option
     \<Rightarrow> (error + string list \<times> rvalue option) res" where
  "parseGlobalOptions w as opts =
     (case opts of
        None \<Rightarrow> Returns (Inr (as, None))
      | Some os \<Rightarrow>
          (case Opt_Options os of
             None \<Rightarrow> Returns (Inr (as, None))
           | Some v \<Rightarrow>
               (case parseWith w [] v as of
                  Panics p \<Rightarrow> Panics p
                | Returns (Inl err) \<Rightarrow> Returns (Inl err)
                | Returns (Inr (rest, v')) \<Rightarrow> Returns (Inr (rest, Some v')))))"

definition additionalCommands :: "Options option \<Rightarrow> Cmd list res" where
  "additionalCommands opts =
     (case opts of
        None \<Rightarrow> Returns []
      | Some os \<Rightarrow>
          (case Opt_Options os of
             None \<Rightarrow> Returns []
           | Some v \<Rightarrow>
               (case Provider os of
                  None \<Rightarrow> Returns []
                | Some (Inl err) \<Rightarrow> Panics (PError (AdditionalCommands err))
                | Some (Inr cmds) \<Rightarrow> Returns cmds)))"

text \<open>
  \<open>fn.Call(fnArgs)\<close> and what \<open>RunOpts\<close> does with the results: \<open>reflect\<close> panics when
  the function takes more parameters than it is given; an error that comes back is
  written and returned.
\<close>

definition callHandler ::
  "string \<Rightarrow> rtype list \<Rightarrow> rtype list \<Rightarrow> (Args \<Rightarrow> rvalue option \<Rightarrow> error option res)
     \<Rightarrow> world \<Rightarrow> Args \<Rightarrow> rvalue option \<Rightarrow> error option res \<times> written list" where
  "callHandler name ins outs body w cmdArguments optsVal =
     (let fnArgs = (case optsVal of None \<Rightarrow> 1 | Some v \<Rightarrow> (2::nat))
      in if length ins > fnArgs then
           (Panics (PString ''reflect: Call with too few input arguments''), [])
         else if length ins < fnArgs then
           (Panics (PString ''reflect: Call with too many input arguments''), [])
         else (case body cmdArguments optsVal of
                 Panics p \<Rightarrow> (Panics p, [])
               | Returns r \<Rightarrow>
                   if length outs > 0 then
                     (case r of
                        Some err \<Rightarrow>
                          (Returns (Some err),
                           [Diag (''error running command '' @ name @ '': '' @ Error w err
                                  @ [CHR 0x0A])])
                      | None \<Rightarrow> (Returns None, []))
                   else (Returns None, [])))"

text \<open>
  The pieces of \<open>RunOpts\<close>.  Its tokens are \<open>args\<close>, or \<open>os.Args[1:]\<close> when \<open>args\<close> is
  the nil slice (\<open>None\<close>).
\<close>

definition tokensOf :: "world \<Rightarrow> string list option \<Rightarrow> string list res" where
  "tokensOf w argv =
     (case argv of
        Some as \<Rightarrow> Returns as
      | None \<Rightarrow>
          (case osArgs w of
             [] \<Rightarrow> Panics (PRuntime ''runtime error: slice bounds out of range'')
           | _ # r \<Rightarrow> Returns r))"

text \<open>
  The calls of the two hooks, made when neither \<open>opts\<close> nor the hook is nil; \<open>gv\<close> is
  the global configuration value.
\<close>

definition callBeforeFunc :: "Options option \<Rightarrow> rvalue option \<Rightarrow> error option res" where
  "callBeforeFunc opts gv =
     (case opts of
        None \<Rightarrow> Returns None
      | Some os \<Rightarrow> (case BeforeFunc os of None \<Rightarrow> Returns None | Some f \<Rightarrow> f gv))"

definition callFunc :: "Options option \<Rightarrow> Cmd \<Rightarrow> rvalue option \<Rightarrow> error option res" where
  "callFunc opts c gv =
     (case opts of
        None \<Rightarrow> Returns None
      | Some os \<Rightarrow> (case Opt_Func os of None \<Rightarrow> Returns None | Some f \<Rightarrow> f c gv))"

text \<open>
  The flags of the command's configuration value, when it has one: the tokens left over
  and the value for the handler (\<open>None\<close> is the invalid \<open>reflect.Value\<close>).
\<close>

definition parseCmdOptions ::
  "world \<Rightarrow> string \<Rightarrow> Cmd \<Rightarrow> string list \<Rightarrow> (error + string list \<times> rvalue option) res" where
  "parseCmdOptions w name c cmdArgs =
     (case Cmd_Options c of
        None \<Rightarrow> Returns (Inr (cmdArgs, None))
      | Some v \<Rightarrow>
          (case parseWith w name v cmdArgs of
             Panics p \<Rightarrow> Panics p
           | Returns (Inl err) \<Rightarrow> Returns (Inl err)
           | Returns (Inr (rest, v')) \<Rightarrow> Returns (Inr (rest, Some v'))))"

text \<open>
  The part of \<open>RunOpts\<close> that runs under the deferred \<open>recoverRun\<close>, from the check of
  the handler's kind to the end.
\<close>

definition runCommand ::
  "world \<Rightarrow> Options option \<Rightarrow> rvalue option \<Rightarrow> string \<Rightarrow> string list \<Rightarrow> Cmd
     \<Rightarrow> error option res \<times> written list" where
  "runCommand w opts gv name cmdArgs c =
     (case Func c of
        NotFunc t \<Rightarrow> (Panics (PError (HandlerNotFunction name t)), [])
      | Fn fname ins outs body \<Rightarrow>
     (case validateCmdFuncReturn fname outs of
        Some err \<Rightarrow> (Panics (PError (InvalidHandler name err)), [])
      | None \<Rightarrow>
     (case parseCmdOptions w name c cmdArgs of
        Panics p \<Rightarrow> (Panics p, [])
      | Returns (Inl err) \<Rightarrow> (Returns (Some err), [])
      | Returns (Inr (cmdArgs', optsVal)) \<Rightarrow>
     (case validateCmdFuncInput fname ins optsVal of
        Some err \<Rightarrow> (Panics (PError (InvalidHandler name err)), [])
      | None \<Rightarrow>
     (case callFunc opts c gv of
        Panics p \<Rightarrow> (Panics p, [])
      | Returns (Some err) \<Rightarrow> (Returns (Some err), [])
      | Returns None \<Rightarrow>
     (case validate (newArgs cmdArgs' (Cmd_Args c)) of
        Panics p \<Rightarrow> (Panics p, [])
      | Returns (Some err) \<Rightarrow>
          (Returns (Some err),
           if err = ErrUnusedArguments
           then [Diag (''command '' @ name @ '' does not accept any arguments'' @ [CHR 0x0A])]
           else [])
      | Returns None \<Rightarrow>
          callHandler name ins outs body w (newArgs cmdArgs' (Cmd_Args c)) optsVal))))))"

text \<open>
  \<open>RunOpts\<close>; \<open>argv\<close> is its parameter \<open>args\<close>.  What the flag library itself prints on
  a failed parse is not part of what is written here.
\<close>

definition RunOpts ::
  "world \<Rightarrow> string list option \<Rightarrow> Options option \<Rightarrow> Cmd list
     \<Rightarrow> error option res \<times> written list" where
  "RunOpts w argv opts commands =
     (if dumpHelpVar w \<noteq> [] then
        (case dumpHelp w opts commands of
           Panics p \<Rightarrow> (Panics p, [])
         | Returns (Inl err) \<Rightarrow> (Panics (PError err), [])
         | Returns (Inr d) \<Rightarrow> (Returns None, [d]))
      else
     (case tokensOf w argv of
        Panics p \<Rightarrow> (Panics p, [])
      | Returns as \<Rightarrow>
     (case parseGlobalOptions w as opts of
        Panics p \<Rightarrow> (Panics p, [])
      | Returns (Inl err) \<Rightarrow> (Returns (Some err), [])
      | Returns (Inr (rem, gv)) \<Rightarrow>
     (case callBeforeFunc opts gv of
        Panics p \<Rightarrow> (Panics p, [])
      | Returns (Some err) \<Rightarrow> (Returns (Some err), [])
      | Returns None \<Rightarrow>
     (case additionalCommands opts of
        Panics p \<Rightarrow> (Panics p, [])
      | Returns extra \<Rightarrow>
          if length rem = 0 \<or> rem ! 0 = ''help'' then
            (Returns (Some (fst (printHelp rem (commands @ extra)))),
             snd (printHelp rem (commands @ extra)))
          else
            (case commandByName (commands @ extra) (rem ! 0) of
               None \<Rightarrow>
                 (Returns (Some (fst (printHelp as (commands @ extra)))),
                  snd (printHelp as (commands @ extra)))
             | Some c \<Rightarrow>
                 recoverRun w c (runCommand w opts gv (rem ! 0) (tl rem) c)))))))"

section \<open>Notions of the specification\<close>

text \<open>
  A well-formed argument sequence: no required argument after an optional one.
\<close>

fun requiredFirst :: "Argument list \<Rightarrow> bool" where
  "requiredFirst [] = True"
| "requiredFirst (v # vs) = ((Optional v \<longrightarrow> list_all Optional vs) \<and> requiredFirst vs)"

text \<open>The number of required arguments of a sequence.\<close>

definition required :: "Argument list \<Rightarrow> nat" where
  "required as = length (filter (\<lambda>v. \<not> Optional v) as)"

text \<open>
  The flag name of a field as the specification has it: the \<open>name\<close> tag when there is
  one, else the name derived from the runes of the identifier.
\<close>

definition specFlagName :: "world \<Rightarrow> StructField \<Rightarrow> string" where
  "specFlagName w f =
     (if TagName f \<noteq> [] then TagName f
      else stringOfRunes (specFieldName w (runesOf (FieldName f))))"

text \<open>A visitor that records the names it is called with.\<close>

definition collectNames :: "string list structVisitor" where
  "collectNames name help field names = Returns (Inr (names @ [name]))"

section \<open>A world and commands to run\<close>

text \<open>
  The case tables on ASCII, quoting of a string that needs no escape, and the flag
  library on tokens of which the first is not a flag: all of them are left over.
\<close>

definition asciiIsUpper :: "rune \<Rightarrow> bool" where
  "asciiIsUpper r = (65 \<le> r \<and> r \<le> 90)"

definition asciiToLower :: "rune \<Rightarrow> rune" where
  "asciiToLower r = (if 65 \<le> r \<and> r \<le> 90 then r + 32 else r)"

definition plainQuote :: "string \<Rightarrow> string" where
  "plainQuote s = CHR 0x22 # s @ [CHR 0x22]"

definition noFlagTokens :: "FlagSet \<Rightarrow> string list \<Rightarrow> error + FlagSet \<times> string list" where
  "noFlagTokens flags as = Inr (flags, as)"

definition mkFrame :: "string \<Rightarrow> string \<Rightarrow> int \<Rightarrow> frame" where
  "mkFrame f fl l = \<lparr>frameFunc = Some f, frameFile = fl, frameLine = l\<rparr>"

text \<open>
  The stack when \<open>RunOpts\<close> itself panics on a line of its own, when a handler panics
  on its line 12, and when \<open>validate\<close> reads through a nil pointer on line 47.
\<close>

definition recoverFrames :: "frame list" where
  "recoverFrames =
     [mkFrame ''runtime.Callers'' ''extern.go'' 331,
      mkFrame ''github.com/rainycape/command.getPanic'' ''recover.go'' 39,
      mkFrame ''github.com/rainycape/command.recoverRun'' ''recover.go'' 14,
      mkFrame ''runtime.gopanic'' ''panic.go'' 770]"

definition mainFrames :: "frame list" where
  "mainFrames =
     [mkFrame ''main.main'' ''main.go'' 30,
      mkFrame ''runtime.main'' ''proc.go'' 283,
      mkFrame ''runtime.goexit'' ''asm_amd64.s'' 1700]"

definition stackOfRunOpts :: "int \<Rightarrow> frame list" where
  "stackOfRunOpts l =
     recoverFrames @ [mkFrame ''github.com/rainycape/command.RunOpts'' ''command.go'' l]
       @ mainFrames"

definition stackOfHandler :: "frame list" where
  "stackOfHandler =
     recoverFrames
       @ [mkFrame ''main.boom'' ''main.go'' 12,
          mkFrame ''reflect.Value.call'' ''value.go'' 581,
          mkFrame ''reflect.Value.Call'' ''value.go'' 365,
          mkFrame ''github.com/rainycape/command.RunOpts'' ''command.go'' 274]
       @ mainFrames"

definition stackOfValidate :: "frame list" where
  "stackOfValidate =
     recoverFrames
       @ [mkFrame ''runtime.panicmem'' ''panic.go'' 262,
          mkFrame ''runtime.sigpanic'' ''signal_unix.go'' 917,
          mkFrame ''github.com/rainycape/command.(*Args).validate'' ''arguments.go'' 47,
          mkFrame ''github.com/rainycape/command.RunOpts'' ''command.go'' 264]
       @ mainFrames"

definition worldWith :: "frame list \<Rightarrow> world" where
  "worldWith st =
     \<lparr>IsUpper = asciiIsUpper, ToLower = asciiToLower, Quote = plainQuote,
      progName = ''prog'', Parse = noFlagTokens, osArgs = [''prog''], dumpHelpVar = [],
      callers = st\<rparr>"

definition mkCmd :: "string \<Rightarrow> Arguments \<Rightarrow> handler \<Rightarrow> rvalue option \<Rightarrow> Cmd" where
  "mkCmd n as h ov =
     \<lparr>Cmd_Name = n, Cmd_Help = [], LongHelp = [], Usage = [], Cmd_Args = as, Func = h,
      Cmd_Options = ov\<rparr>"

definition mkArg :: "string \<Rightarrow> bool \<Rightarrow> Argument" where
  "mkArg n opt = \<lparr>Name = n, Help = [], Optional = opt\<rparr>"

definition succeeds :: "Args \<Rightarrow> rvalue option \<Rightarrow> error option res" where
  "succeeds a ov = Returns None"

definition boom :: "Args \<Rightarrow> rvalue option \<Rightarrow> error option res" where
  "boom a ov = Panics (PString ''boom'')"

text \<open>A configuration struct: one field without a \<open>name\<close> tag and one with.\<close>

definition exampleFields :: "StructField list" where
  "exampleFields =
     [\<lparr>FieldName = ''MaxRetry'', FieldType = ''int'', FieldKind = KInt, PkgPath = [],
       TagName = [], TagHelp = [], IsFlagValue = False, Current = ''3''\<rparr>,
      \<lparr>FieldName = ''Verbose'', FieldType = ''bool'', FieldKind = KBool, PkgPath = [],
       TagName = ''v'', TagHelp = ''print more'', IsFlagValue = False, Current = ''false''\<rparr>]"

text \<open>
  Commands: a handler that panics; handlers that return an \<open>int\<close>, take a \<open>[]string\<close>
  first, or take another type than that of the configuration value; a command that
  takes no arguments; and one that declares a required argument after an optional one.
\<close>

definition cmdBoom :: Cmd where
  "cmdBoom = mkCmd ''boom'' [] (Fn ''main.boom'' [argsType] [errType] boom) None"

definition cmdBadReturn :: Cmd where
  "cmdBadReturn = mkCmd ''bad'' [] (Fn ''main.bad'' [argsType] [Type ''int'' ''int''] succeeds) None"

definition cmdBadFirst :: Cmd where
  "cmdBadFirst = mkCmd ''bad'' [] (Fn ''main.bad'' [Type ''[]string'' ''[]string''] [errType] succeeds) None"

definition cmdBadOptions :: Cmd where
  "cmdBadOptions =
     mkCmd ''bad'' []
       (Fn ''main.bad'' [argsType, ptrTo (Type ''main.other'' ''main.other'')] [errType]
          succeeds)
       (Some (Ptr (Type ''main.options'' ''main.options'') (Some [])))"

definition cmdStatus :: Cmd where
  "cmdStatus = mkCmd ''status'' NoArgs (Fn ''main.status'' [argsType] [errType] succeeds) None"

definition cmdCopy :: Cmd where
  "cmdCopy =
     mkCmd ''copy'' (map Some [mkArg ''mode'' True, mkArg ''src'' False])
       (Fn ''main.copy'' [argsType] [errType] succeeds) None"

section \<open>Exit status\<close>

text \<open>
  Claim C8.  The status \<open>Exit\<close> hands to \<open>os.Exit\<close> is 0 for the nil error, 2 for
  \<open>ErrHelp\<close>, 3 for \<open>ErrNoCommand\<close>, 4 for \<open>ErrUnusedArguments\<close>, and 1 for every other
  error, an \<open>UnknownCommandError\<close> or the error of a handler among them.
\<close>

theorem Exit_status:
  "Exit None = 0 \<and> Exit (Some ErrHelp) = 2 \<and> Exit (Some ErrNoCommand) = 3
   \<and> Exit (Some ErrUnusedArguments) = 4
   \<and> (\<forall>e. e \<noteq> ErrHelp \<and> e \<noteq> ErrNoCommand \<and> e \<noteq> ErrUnusedArguments
          \<longrightarrow> Exit (Some e) = 1)"
  by (auto simp: Exit_def split: error.splits)

theorem Exit_status_witness:
  "UnknownCommandError ''deploy'' \<noteq> ErrHelp \<and> UnknownCommandError ''deploy'' \<noteq> ErrNoCommand
   \<and> UnknownCommandError ''deploy'' \<noteq> ErrUnusedArguments
   \<and> Exit (Some (UnknownCommandError ''deploy'')) = 1
   \<and> Exit (Some (HostError ''disk full'')) = 1"
  using Exit_status by simp

section \<open>Looking a command up\<close>

lemma commandByName_None: "commandByName cs n = None \<longleftrightarrow> (\<forall>c \<in> set cs. Cmd_Name c \<noteq> n)"
  by (induction cs) auto

lemma commandByName_Some:
  "commandByName cs n = Some c \<longleftrightarrow>
     (\<exists>i < length cs. cs ! i = c \<and> Cmd_Name c = n \<and> (\<forall>j < i. Cmd_Name (cs ! j) \<noteq> n))"
proof (induction cs)
  case Nil
  then show ?case by simp
next
  case (Cons v vs)
  show ?case
  proof (cases "Cmd_Name v = n")
    case True
    have "(\<exists>i < length (v # vs). (v # vs) ! i = c \<and> Cmd_Name c = n
             \<and> (\<forall>j < i. Cmd_Name ((v # vs) ! j) \<noteq> n)) \<longleftrightarrow> v = c"
    proof
      assume "\<exists>i < length (v # vs). (v # vs) ! i = c \<and> Cmd_Name c = n
             \<and> (\<forall>j < i. Cmd_Name ((v # vs) ! j) \<noteq> n)"
      then obtain i where i: "(v # vs) ! i = c" "\<forall>j < i. Cmd_Name ((v # vs) ! j) \<noteq> n" by blast
      have "i = 0"
      proof (rule ccontr)
        assume "i \<noteq> 0"
        then have "0 < i" by simp
        with i(2) have "Cmd_Name ((v # vs) ! 0) \<noteq> n" by blast
        with True show False by simp
      qed
      with i(1) show "v = c" by simp
    next
      assume "v = c"
      with True have "0 < length (v # vs) \<and> (v # vs) ! 0 = c \<and> Cmd_Name c = n
             \<and> (\<forall>j < 0. Cmd_Name ((v # vs) ! j) \<noteq> n)" by simp
      then show "\<exists>i < length (v # vs). (v # vs) ! i = c \<and> Cmd_Name c = n
             \<and> (\<forall>j < i. Cmd_Name ((v # vs) ! j) \<noteq> n)" by blast
    qed
    with True show ?thesis by simp
  next
    case False
    have "(\<exists>i < length (v # vs). (v # vs) ! i = c \<and> Cmd_Name c = n
             \<and> (\<forall>j < i. Cmd_Name ((v # vs) ! j) \<noteq> n))
          \<longleftrightarrow> (\<exists>i < length vs. vs ! i = c \<and> Cmd_Name c = n \<and> (\<forall>j < i. Cmd_Name (vs ! j) \<noteq> n))"
      (is "?L \<longleftrightarrow> ?R")
    proof
      assume ?L
      then obtain i where i: "i < length (v # vs)" "(v # vs) ! i = c" "Cmd_Name c = n"
        "\<forall>j < i. Cmd_Name ((v # vs) ! j) \<noteq> n" by blast
      from i(2,3) False have "i \<noteq> 0" by (cases i) auto
      then obtain k where k: "i = Suc k" by (cases i) auto
      with i have "k < length vs" "vs ! k = c" by auto
      moreover have "\<forall>j < k. Cmd_Name (vs ! j) \<noteq> n"
      proof (intro allI impI)
        fix j assume "j < k"
        then have "Suc j < i" using k by simp
        with i(4) have "Cmd_Name ((v # vs) ! Suc j) \<noteq> n" by blast
        then show "Cmd_Name (vs ! j) \<noteq> n" by simp
      qed
      ultimately show ?R using i(3) by blast
    next
      assume ?R
      then obtain k where k: "k < length vs" "vs ! k = c" "Cmd_Name c = n"
        "\<forall>j < k. Cmd_Name (vs ! j) \<noteq> n" by blast
      have "\<forall>j < Suc k. Cmd_Name ((v # vs) ! j) \<noteq> n"
      proof (intro allI impI)
        fix j assume "j < Suc k"
        then show "Cmd_Name ((v # vs) ! j) \<noteq> n"
          using False k(4) by (cases j) auto
      qed
      with k have "Suc k < length (v # vs) \<and> (v # vs) ! Suc k = c \<and> Cmd_Name c = n
          \<and> (\<forall>j < Suc k. Cmd_Name ((v # vs) ! j) \<noteq> n)" by simp
      then show ?L by blast
    qed
    with False Cons.IH show ?thesis by simp
  qed
qed

text \<open>
  Claim C9.  \<open>commandByName\<close> returns the first command of the list whose name is the
  token, compared exactly: it returns \<open>c\<close> just when \<open>c\<close> stands at an index before
  which no command has the name, so of two commands with one name the earlier is found;
  and it finds nothing just when no command has the name.
\<close>

theorem commandByName_first_match:
  "(commandByName cs n = Some c \<longleftrightarrow>
      (\<exists>i < length cs. cs ! i = c \<and> Cmd_Name c = n \<and> (\<forall>j < i. Cmd_Name (cs ! j) \<noteq> n)))
   \<and> (commandByName cs n = None \<longleftrightarrow> (\<forall>c \<in> set cs. Cmd_Name c \<noteq> n))"
  using commandByName_Some [of cs n c] commandByName_None [of cs n] by blast

theorem commandByName_first_match_witness:
  "commandByName
     [mkCmd ''build'' [] (NotFunc ''int'') None, mkCmd ''run'' [] (NotFunc ''int'') None,
      mkCmd ''run'' NoArgs (NotFunc ''string'') None] ''run''
     = Some (mkCmd ''run'' [] (NotFunc ''int'') None)
   \<and> commandByName
     [mkCmd ''build'' [] (NotFunc ''int'') None, mkCmd ''run'' [] (NotFunc ''int'') None,
      mkCmd ''run'' NoArgs (NotFunc ''string'') None] ''Run'' = None"
  using commandByName_first_match
    [of "[mkCmd ''build'' [] (NotFunc ''int'') None, mkCmd ''run'' [] (NotFunc ''int'') None,
          mkCmd ''run'' NoArgs (NotFunc ''string'') None]" "''run''"
        "mkCmd ''run'' [] (NotFunc ''int'') None"]
  by (simp add: mkCmd_def)

section \<open>Validating the tokens against the declared arguments\<close>

lemma validateLoop_optional:
  "list_all Optional as \<Longrightarrow> validateLoop (map Some as) h req = Returns (Inr req)"
  by (induction as arbitrary: h) auto

lemma validateLoop_wellformed:
  "requiredFirst as \<Longrightarrow>
     validateLoop (map Some as) False req = Returns (Inr (req + required as))"
  by (induction as arbitrary: req) (auto simp: required_def validateLoop_optional list_all_iff filter_empty_conv[THEN iffD2])

lemma map_Some_not_NoArgs: "map Some as \<noteq> NoArgs"
  by (auto simp: NoArgs_def)

text \<open>
  Claim C4.  For a command whose arguments are a well-formed sequence of \<open>Argument\<close>s
  with \<open>k\<close> required ones, \<open>validate\<close> on fewer than \<open>k\<close> tokens returns the error of
  insufficient arguments with \<open>k\<close> and the number of tokens, and on \<open>k\<close> or more tokens
  returns no error.
\<close>

theorem validate_required_count:
  assumes "cmd_Args a = map Some as" and "requiredFirst as"
  shows "validate a =
     (if length (args a) < required as
      then Returns (Some (InsufficientArguments (required as) (length (args a))))
      else Returns None)"
  using assms by (simp add: validate_def map_Some_not_NoArgs validateLoop_wellformed)

theorem validate_required_count_witness:
  "requiredFirst [mkArg ''src'' False, mkArg ''dst'' False, mkArg ''mode'' True]
   \<and> validate (newArgs [''a'']
        (map Some [mkArg ''src'' False, mkArg ''dst'' False, mkArg ''mode'' True]))
       = Returns (Some (InsufficientArguments 2 1))
   \<and> validate (newArgs [''a'', ''b'']
        (map Some [mkArg ''src'' False, mkArg ''dst'' False, mkArg ''mode'' True]))
       = Returns None"
  using
    validate_required_count
      [of "newArgs [''a'']
             (map Some [mkArg ''src'' False, mkArg ''dst'' False, mkArg ''mode'' True])"
          "[mkArg ''src'' False, mkArg ''dst'' False, mkArg ''mode'' True]"]
    validate_required_count
      [of "newArgs [''a'', ''b'']
             (map Some [mkArg ''src'' False, mkArg ''dst'' False, mkArg ''mode'' True])"
          "[mkArg ''src'' False, mkArg ''dst'' False, mkArg ''mode'' True]"]
  by (simp add: newArgs_def mkArg_def required_def)

lemma requiredFirst_iff:
  "requiredFirst as \<longleftrightarrow>
     (\<forall>i j. i < j \<and> j < length as \<and> Optional (as ! i) \<longrightarrow> Optional (as ! j))"
proof (induction as)
  case Nil
  then show ?case by simp
next
  case (Cons v vs)
  have a: "(\<forall>i j. i < j \<and> j < length (v # vs) \<and> Optional ((v # vs) ! i) \<longrightarrow> Optional ((v # vs) ! j))
        \<longleftrightarrow> (Optional v \<longrightarrow> (\<forall>j < length vs. Optional (vs ! j)))
            \<and> (\<forall>i j. i < j \<and> j < length vs \<and> Optional (vs ! i) \<longrightarrow> Optional (vs ! j))"
    (is "?L \<longleftrightarrow> ?A \<and> ?B")
  proof
    assume l: ?L
    have ?A
    proof (intro impI allI)
      fix j assume "Optional v" "j < length vs"
      with l [rule_format, of 0 "Suc j"] show "Optional (vs ! j)" by simp
    qed
    moreover have ?B
    proof (intro impI allI)
      fix i j assume "i < j \<and> j < length vs \<and> Optional (vs ! i)"
      with l [rule_format, of "Suc i" "Suc j"] show "Optional (vs ! j)" by simp
    qed
    ultimately show "?A \<and> ?B" ..
  next
    assume ab: "?A \<and> ?B"
    show ?L
    proof (intro impI allI)
      fix i j assume h: "i < j \<and> j < length (v # vs) \<and> Optional ((v # vs) ! i)"
      then obtain m where m: "j = Suc m" by (cases j) auto
      show "Optional ((v # vs) ! j)"
      proof (cases i)
        case 0
        with h m ab show ?thesis by simp
      next
        case (Suc n)
        with h m ab [THEN conjunct2, rule_format, of n m] show ?thesis by simp
      qed
    qed
  qed
  show ?case unfolding a using Cons.IH by (simp add: list_all_length)
qed

section \<open>Looking an argument up by name\<close>

lemma argumentPosFrom_first:
  "i < length as \<Longrightarrow> Name (as ! i) = name \<Longrightarrow> \<forall>j < i. Name (as ! j) \<noteq> name \<Longrightarrow>
     argumentPosFrom k (map Some as) name = Returns (Inr (k + i))"
proof (induction as arbitrary: k i)
  case Nil
  then show ?case by simp
next
  case (Cons v vs)
  show ?case
  proof (cases i)
    case 0
    with Cons.prems show ?thesis by simp
  next
    case (Suc m)
    with Cons.prems have "Name v \<noteq> name" by auto
    moreover have "m < length vs" "Name (vs ! m) = name" using Cons.prems Suc by auto
    moreover have "\<forall>j < m. Name (vs ! j) \<noteq> name"
    proof (intro allI impI)
      fix j assume "j < m"
      then have "Suc j < i" using Suc by simp
      with Cons.prems(3) have "Name ((v # vs) ! Suc j) \<noteq> name" by blast
      then show "Name (vs ! j) \<noteq> name" by simp
    qed
    ultimately show ?thesis using Cons.IH [of m "Suc k"] Suc by simp
  qed
qed

lemma argumentPosFrom_absent:
  "\<forall>v. Some v \<in> set vs \<longrightarrow> Name v \<noteq> name \<Longrightarrow>
     (None \<notin> set vs \<longrightarrow> argumentPosFrom k vs name = Returns (Inl (ArgumentNotFound name)))
     \<and> (None \<in> set vs \<longrightarrow> argumentPosFrom k vs name = Panics nilDeref)"
proof (induction vs arbitrary: k)
  case Nil
  then show ?case by simp
next
  case (Cons x xs)
  then show ?case by (cases x) auto
qed

lemma Atoi_empty: "Atoi [] = Inl (NumErrorSyntax [])"
  by (simp add: Atoi_def)

lemma String_declared:
  assumes "cmd_Args a = map Some as" and "i < length as" and "Name (as ! i) = name"
    and "\<forall>j < i. Name (as ! j) \<noteq> name"
  shows "String a name = Returns (StringAt a i)"
  using argumentPosFrom_first [OF assms(2,3,4), of 0] assms(1)
  by (simp add: String_def argumentPos_def)

text \<open>
  Claim C6.  Let \<open>name\<close> be declared in the command's sequence of \<open>Argument\<close>s, at
  position \<open>i\<close> (the first that declares it).  Then \<open>String\<close> returns the token at
  \<open>i\<close>, or the empty string when there are \<open>i\<close> tokens or fewer, and never panics;
  \<open>Int\<close> panics exactly when the token at \<open>i\<close> is missing or \<open>strconv.Atoi\<close> rejects
  it, and returns its value otherwise.
\<close>

theorem String_Int_lookup:
  assumes "cmd_Args a = map Some as" and "i < length as" and "Name (as ! i) = name"
    and "\<forall>j < i. Name (as ! j) \<noteq> name"
  shows "String a name = Returns (if i \<ge> length (args a) then [] else args a ! i)
     \<and> ((\<exists>p. Args_Int a name = Panics p)
          \<longleftrightarrow> (i \<ge> length (args a) \<or> (\<exists>e. Atoi (args a ! i) = Inl e)))
     \<and> (\<forall>n. i < length (args a) \<and> Atoi (args a ! i) = Inr n \<longrightarrow> Args_Int a name = Returns n)"
  using String_declared [OF assms]
  by (auto simp: Args_Int_def StringAt_def Atoi_empty split: sum.splits)

theorem String_Int_lookup_witness:
  "String (newArgs [''7''] (map Some [mkArg ''count'' False, mkArg ''step'' True])) ''step''
     = Returns []
   \<and> (\<exists>p. Args_Int (newArgs [''7''] (map Some [mkArg ''count'' False, mkArg ''step'' True]))
             ''step'' = Panics p)"
  using String_Int_lookup
    [of "newArgs [''7''] (map Some [mkArg ''count'' False, mkArg ''step'' True])"
        "[mkArg ''count'' False, mkArg ''step'' True]" 1 "''step''"]
  by (simp add: newArgs_def mkArg_def)

text \<open>
  Claim C10.  For every \<open>Args\<close> value, \<open>String\<close> on a name that no declared argument
  has panics and returns no string; the panic carries the error that the argument was
  not found whenever the declared sequence consists of \<open>Argument\<close>s (has no nil entry).
\<close>

theorem String_undeclared_panics:
  assumes "\<forall>v. Some v \<in> set (cmd_Args a) \<longrightarrow> Name v \<noteq> name"
  shows "(\<exists>p. String a name = Panics p)
     \<and> (None \<notin> set (cmd_Args a) \<longrightarrow> String a name = Panics (PError (ArgumentNotFound name)))"
  using argumentPosFrom_absent [OF assms, of 0]
  by (cases "None \<in> set (cmd_Args a)") (auto simp: String_def argumentPos_def)

theorem String_undeclared_panics_witness:
  "String (newArgs [''7''] (map Some [mkArg ''count'' False])) ''step''
     = Panics (PError (ArgumentNotFound ''step''))"
  using String_undeclared_panics [of "newArgs [''7''] (map Some [mkArg ''count'' False])" "''step''"]
  by (simp add: newArgs_def mkArg_def)

section \<open>Flag names\<close>

lemma defaultFieldNameLoop_spec:
  "\<forall>k. (k = 0 \<longleftrightarrow> runes = []) \<longrightarrow>
     defaultFieldNameLoop w name runes
       = runes @ concat (map (hyphenate w) (enumerate k (runesOf name)))"
proof (induction w name runes rule: defaultFieldNameLoop.induct)
  case (1 w name runes)
  show ?case
  proof (intro allI impI)
    fix k :: nat
    assume k: "k = 0 \<longleftrightarrow> runes = []"
    show "defaultFieldNameLoop w name runes
       = runes @ concat (map (hyphenate w) (enumerate k (runesOf name)))"
    proof (cases "name = []")
      case True
      then show ?thesis
        by (simp add: defaultFieldNameLoop.simps [of w "[]"] runesOf.simps [of "[]"])
    next
      case False
      let ?c = "fst (DecodeRuneInString name)"
      let ?rest = "drop (snd (DecodeRuneInString name)) name"
      let ?runes' = "(if IsUpper w ?c
           then (if length runes > 0 then runes @ [45] else runes) @ [ToLower w ?c]
           else runes @ [?c])"
      have step: "defaultFieldNameLoop w name runes = defaultFieldNameLoop w ?rest ?runes'"
        using False by (subst defaultFieldNameLoop.simps) simp
      have ne: "Suc k = 0 \<longleftrightarrow> ?runes' = []" by simp
      have ih: "defaultFieldNameLoop w ?rest ?runes'
          = ?runes' @ concat (map (hyphenate w) (enumerate (Suc k) (runesOf ?rest)))"
        using "1.IH" [OF False] ne by blast
      have ro: "runesOf name = ?c # runesOf ?rest"
        using False by (subst runesOf.simps) simp
      have hy: "?runes' = runes @ hyphenate w (k, ?c)"
        using k by (auto simp: hyphenate_def)
      have "defaultFieldNameLoop w name runes
          = ?runes' @ concat (map (hyphenate w) (enumerate (Suc k) (runesOf ?rest)))"
        by (simp only: step ih)
      also have "\<dots> = (runes @ hyphenate w (k, ?c))
          @ concat (map (hyphenate w) (enumerate (Suc k) (runesOf ?rest)))"
        by (simp only: hy)
      also have "\<dots> = runes @ concat (map (hyphenate w) (enumerate k (runesOf name)))"
        by (simp add: ro)
      finally show ?thesis .
    qed
  qed
qed

lemma defaultFieldName_spec:
  "defaultFieldName w name = stringOfRunes (specFieldName w (runesOf name))"
  using defaultFieldNameLoop_spec [of "[]" w name]
  by (simp add: defaultFieldName_def specFieldName_def)

lemma visitFields_collectNames:
  "\<forall>f \<in> set fs. PkgPath f = [] \<and> specFlagName w f \<noteq> [] \<Longrightarrow>
     visitFields w t collectNames fs st = Returns (Inr (st @ map (specFlagName w) fs))"
  by (induction fs arbitrary: st)
     (auto simp: specFlagName_def defaultFieldName_spec collectNames_def Let_def)

lemma runesOf_MaxRetry: "runesOf ''MaxRetry'' = [77, 97, 120, 82, 101, 116, 114, 121]"
  by (simp add: runesOf.simps DecodeRuneInString_def byte_def)

lemma specFieldName_MaxRetry:
  "specFieldName (worldWith []) [77, 97, 120, 82, 101, 116, 114, 121]
     = [109, 97, 120, 45, 114, 101, 116, 114, 121]"
  by (simp add: specFieldName_def hyphenate_def worldWith_def asciiIsUpper_def
      asciiToLower_def)

lemma stringOfRunes_max_retry:
  "stringOfRunes [109, 97, 120, 45, 114, 101, 116, 114, 121] = ''max-retry''"
  by (simp add: stringOfRunes_def encodeRune_def RuneError_def char_of_eq_iff)

lemma specFlagName_exampleFields:
  "map (specFlagName (worldWith [])) exampleFields = [''max-retry'', ''v'']"
  by (simp add: exampleFields_def specFlagName_def runesOf_MaxRetry specFieldName_MaxRetry
      stringOfRunes_max_retry)

text \<open>
  Claim C7.  \<open>defaultFieldName\<close> is the derivation of the specification on the runes of
  the identifier: each upper-case rune in lower case, after a hyphen unless it is the
  first rune.  \<open>visitStruct\<close> hands every field to the visitor under its \<open>name\<close> tag when
  that is not empty and under the derived name otherwise.
\<close>

theorem flag_name_derivation:
  "defaultFieldName w name = stringOfRunes (specFieldName w (runesOf name))
   \<and> ((\<forall>f \<in> set fs. PkgPath f = [] \<and> specFlagName w f \<noteq> []) \<longrightarrow>
        visitStruct w (Ptr t (Some fs)) collectNames []
          = Returns (Inr (map (specFlagName w) fs)))"
  using defaultFieldName_spec [of w name] visitFields_collectNames [of fs w "typeString t" "[]"]
  by simp

theorem flag_name_derivation_witness:
  "defaultFieldName (worldWith []) ''MaxRetry'' = ''max-retry''
   \<and> visitStruct (worldWith []) (Ptr (Type ''main.options'' ''main.options'') (Some exampleFields))
       collectNames []
       = Returns (Inr [''max-retry'', ''v''])"
proof -
  have names: "map (specFlagName (worldWith [])) exampleFields = [''max-retry'', ''v'']"
    by (rule specFlagName_exampleFields)
  have hyp: "\<forall>f \<in> set exampleFields. PkgPath f = [] \<and> specFlagName (worldWith []) f \<noteq> []"
    using names by (simp add: exampleFields_def)
  show ?thesis
    using flag_name_derivation
        [of "worldWith []" "''MaxRetry''" exampleFields "Type ''main.options'' ''main.options''"]
      hyp names
    by (simp add: runesOf_MaxRetry specFieldName_MaxRetry stringOfRunes_max_retry)
qed

section \<open>Dispatch: panics and errors\<close>

lemma commandByName_name: "commandByName cs n = Some c \<Longrightarrow> Cmd_Name c = n"
  by (induction cs) (auto split: if_splits)

lemma recoverRun_panic:
  "recoverRun w c (Panics r, out) =
     (Returns (Some (case panicLocation w of
                       Some f \<Rightarrow>
                         PanicRunningAt (Cmd_Name c) (frameFile f) (frameLine f) (showPanic w r)
                     | None \<Rightarrow> PanicRunning (Cmd_Name c) (showPanic w r))),
      out @ [Diag (Error w (case panicLocation w of
                       Some f \<Rightarrow>
                         PanicRunningAt (Cmd_Name c) (frameFile f) (frameLine f) (showPanic w r)
                     | None \<Rightarrow> PanicRunning (Cmd_Name c) (showPanic w r)) @ [CHR 0x0A])])"
  by (simp add: recoverRun_def Let_def)

lemma recoverRun_return: "recoverRun w c (Returns e, out) = (Returns e, out)"
  by (simp add: recoverRun_def)

lemma RunOpts_found:
  assumes "dumpHelpVar w = []"
    and "tokensOf w argv = Returns ts"
    and "parseGlobalOptions w ts opts = Returns (Inr (name # cmdArgs, gv))"
    and "callBeforeFunc opts gv = Returns None"
    and "additionalCommands opts = Returns extra"
    and "name \<noteq> ''help''"
    and "commandByName (commands @ extra) name = Some c"
  shows "RunOpts w argv opts commands = recoverRun w c (runCommand w opts gv name cmdArgs c)"
  using assms by (simp add: RunOpts_def)

lemma runCommand_handler_panics:
  assumes "Func c = Fn fname ins outs body"
    and "validateCmdFuncReturn fname outs = None"
    and "parseCmdOptions w name c cmdArgs = Returns (Inr (cmdArgs', optsVal))"
    and "validateCmdFuncInput fname ins optsVal = None"
    and "callFunc opts c gv = Returns None"
    and "validate (newArgs cmdArgs' (Cmd_Args c)) = Returns None"
    and "length ins = (case optsVal of None \<Rightarrow> 1 | Some v \<Rightarrow> 2)"
    and "body (newArgs cmdArgs' (Cmd_Args c)) optsVal = Panics r"
  shows "runCommand w opts gv name cmdArgs c = (Panics r, [])"
  using assms by (cases optsVal) (simp_all add: runCommand_def callHandler_def)

lemma runCommand_validate_error:
  assumes "Func c = Fn fname ins outs body"
    and "validateCmdFuncReturn fname outs = None"
    and "parseCmdOptions w name c cmdArgs = Returns (Inr (cmdArgs', optsVal))"
    and "validateCmdFuncInput fname ins optsVal = None"
    and "callFunc opts c gv = Returns None"
    and "validate (newArgs cmdArgs' (Cmd_Args c)) = Returns (Some (RequiredAfterOptional n))"
  shows "runCommand w opts gv name cmdArgs c = (Returns (Some (RequiredAfterOptional n)), [])"
  using assms by (simp add: runCommand_def)

lemmas stack_defs = panicLocation_def getPanic_def getPanicFrom.simps Callers_def worldWith_def
  stackOfHandler_def stackOfValidate_def stackOfRunOpts_def recoverFrames_def mainFrames_def
  mkFrame_def HasPrefix_def Contains_def Caller_def

lemma loc_handler:
  "panicLocation (worldWith stackOfHandler) = Some (mkFrame ''main.boom'' ''main.go'' 12)"
  by (simp add: stack_defs)

lemma loc_validate:
  "panicLocation (worldWith stackOfValidate)
     = Some (mkFrame ''github.com/rainycape/command.(*Args).validate'' ''arguments.go'' 47)"
  by (simp add: stack_defs)

lemma loc_RunOpts:
  "panicLocation (worldWith (stackOfRunOpts l))
     = Some (mkFrame ''github.com/rainycape/command.RunOpts'' ''command.go'' l)"
  by (simp add: stack_defs)

lemma loc_none: "panicLocation (worldWith []) = None"
  by (simp add: stack_defs)

lemma world_sel:
  "dumpHelpVar (worldWith st) = []" "Parse (worldWith st) = noFlagTokens"
  "progName (worldWith st) = ''prog''" "Quote (worldWith st) = plainQuote"
  by (simp_all add: worldWith_def)

lemma showInt_12: "showInt 12 = ''12''"
  by (simp add: showInt_def showNat.simps char_of_eq_iff)

lemmas run_defs = RunOpts_def tokensOf_def parseGlobalOptions_def callBeforeFunc_def
  additionalCommands_def runCommand_def parseCmdOptions_def callFunc_def recoverRun_def
  validateCmdFuncReturn_def validateCmdFuncInput_def callHandler_def parseWith_def
  setupOptionsFlags_def noFlagTokens_def validate_def newArgs_def NoArgs_def mkCmd_def
  mkArg_def errType_def argsType_def succeeds_def boom_def nilDeref_def world_sel
  cmdBoom_def cmdBadReturn_def cmdBadFirst_def cmdBadOptions_def cmdStatus_def cmdCopy_def

text \<open>
  Claim C5.  Whenever \<open>RunOpts\<close> reaches the call of the handler (the command is found by
  name, the handler passes both checks and takes as many parameters as it is given, the
  flags parse, no hook fails and the tokens are valid) and the handler panics with \<open>r\<close>,
  \<open>RunOpts\<close> returns, and what it returns is the error of a panic: with file and line
  when \<open>recoverRun\<close> finds the frame, without them otherwise.  The message of the error is
  the one of the specification and ends with the panic value, and it is written to the
  standard error stream.
\<close>

theorem handler_panic_recovered:
  assumes "dumpHelpVar w = []"
    and "tokensOf w argv = Returns ts"
    and "parseGlobalOptions w ts opts = Returns (Inr (name # cmdArgs, gv))"
    and "callBeforeFunc opts gv = Returns None"
    and "additionalCommands opts = Returns extra"
    and "name \<noteq> ''help''"
    and "commandByName (commands @ extra) name = Some c"
    and "Func c = Fn fname ins outs body"
    and "validateCmdFuncReturn fname outs = None"
    and "parseCmdOptions w name c cmdArgs = Returns (Inr (cmdArgs', optsVal))"
    and "validateCmdFuncInput fname ins optsVal = None"
    and "callFunc opts c gv = Returns None"
    and "validate (newArgs cmdArgs' (Cmd_Args c)) = Returns None"
    and "length ins = (case optsVal of None \<Rightarrow> 1 | Some v \<Rightarrow> 2)"
    and "body (newArgs cmdArgs' (Cmd_Args c)) optsVal = Panics r"
  shows "RunOpts w argv opts commands =
           (case panicLocation w of
              Some f \<Rightarrow>
                (Returns (Some (PanicRunningAt name (frameFile f) (frameLine f) (showPanic w r))),
                 [Diag (''panic running command '' @ name @ '' at '' @ frameFile f @ '':''
                        @ showInt (frameLine f) @ '': '' @ showPanic w r @ [CHR 0x0A])])
            | None \<Rightarrow>
                (Returns (Some (PanicRunning name (showPanic w r))),
                 [Diag (''panic running command '' @ name @ '': '' @ showPanic w r
                        @ [CHR 0x0A])]))
         \<and> Error w (PanicRunningAt name fl l (showPanic w r))
             = ''panic running command '' @ name @ '' at '' @ fl @ '':'' @ showInt l @ '': ''
                 @ showPanic w r
         \<and> Error w (PanicRunning name (showPanic w r))
             = ''panic running command '' @ name @ '': '' @ showPanic w r"
proof -
  have n: "Cmd_Name c = name"
    using assms(7) by (rule commandByName_name)
  have run: "RunOpts w argv opts commands = recoverRun w c (Panics r, [])"
    using RunOpts_found [OF assms(1,2,3,4,5,6,7)]
      runCommand_handler_panics [OF assms(8,9,10,11,12,13,14,15)]
    by simp
  show ?thesis
    unfolding run recoverRun_panic
    by (cases "panicLocation w") (simp_all add: n)
qed

theorem handler_panic_recovered_witness:
  "RunOpts (worldWith stackOfHandler) (Some [''boom'', ''now'']) None [cmdBoom]
     = (Returns (Some (PanicRunningAt ''boom'' ''main.go'' 12 ''boom'')),
        [Diag (''panic running command boom at main.go:12: boom'' @ [CHR 0x0A])])
   \<and> RunOpts (worldWith []) (Some [''boom'', ''now'']) None [cmdBoom]
     = (Returns (Some (PanicRunning ''boom'' ''boom'')),
        [Diag (''panic running command boom: boom'' @ [CHR 0x0A])])"
proof -
  have t: "tokensOf (worldWith st) (Some [''boom'', ''now'']) = Returns [''boom'', ''now'']"
    "parseGlobalOptions (worldWith st) [''boom'', ''now''] None
       = Returns (Inr (''boom'' # [''now''], None))"
    "callBeforeFunc None None = Returns None" "additionalCommands None = Returns []"
    "callFunc None cmdBoom None = Returns None"
    "parseCmdOptions (worldWith st) ''boom'' cmdBoom [''now''] = Returns (Inr ([''now''], None))"
    for st
    by (simp_all add: tokensOf_def parseGlobalOptions_def callBeforeFunc_def callFunc_def
        additionalCommands_def parseCmdOptions_def cmdBoom_def mkCmd_def)
  have f: "Func cmdBoom = Fn ''main.boom'' [argsType] [errType] boom"
    "commandByName ([cmdBoom] @ []) ''boom'' = Some cmdBoom"
    "validateCmdFuncReturn ''main.boom'' [errType] = None"
    "validateCmdFuncInput ''main.boom'' [argsType] None = None"
    "length [argsType] = (case None :: rvalue option of None \<Rightarrow> 1 | Some v \<Rightarrow> 2)"
    by (simp_all add: cmdBoom_def mkCmd_def validateCmdFuncReturn_def
        validateCmdFuncInput_def)
  have v: "validate (newArgs [''now''] (Cmd_Args cmdBoom)) = Returns None"
    by (simp add: validate_def newArgs_def cmdBoom_def mkCmd_def NoArgs_def)
  have b: "boom (newArgs [''now''] (Cmd_Args cmdBoom)) None = Panics (PString ''boom'')"
    by (simp add: boom_def)
  have h: "''boom'' \<noteq> ''help''"
    by simp
  show ?thesis
    using
      handler_panic_recovered
        [OF world_sel(1) t(1) t(2) t(3) t(4) h f(2) f(1) f(3) t(6) f(4) t(5) v f(5) b,
          of stackOfHandler]
      handler_panic_recovered
        [OF world_sel(1) t(1) t(2) t(3) t(4) h f(2) f(1) f(3) t(6) f(4) t(5) v f(5) b,
          of "[]"]
    by (simp add: loc_handler loc_none mkFrame_def showInt_12)
qed

text \<open>
  Claim C1.  The handlers of three commands break the contract: one returns an \<open>int\<close>,
  one takes a \<open>[]string\<close> first, one takes another type than that of the configuration
  value.  In each run the panic of \<open>RunOpts\<close> is caught by the \<open>recoverRun\<close> deferred
  before the checks, and \<open>RunOpts\<close> returns an error.
\<close>

theorem handler_mismatch_is_returned:
  "fst (RunOpts (worldWith (stackOfRunOpts 241)) (Some [''bad'']) None [cmdBadReturn])
     = Returns (Some (PanicRunningAt ''bad'' ''command.go'' 241
         ''invalid handler for command bad: function main.bad must return a value of type error, not int''))
   \<and> fst (RunOpts (worldWith (stackOfRunOpts 257)) (Some [''bad'']) None [cmdBadFirst])
     = Returns (Some (PanicRunningAt ''bad'' ''command.go'' 257
         ''invalid handler for command bad: function main.bad must accept *command.Args as its first argument''))
   \<and> fst (RunOpts (worldWith (stackOfRunOpts 257)) (Some [''bad'']) None [cmdBadOptions])
     = Returns (Some (PanicRunningAt ''bad'' ''command.go'' 257
         ''invalid handler for command bad: function main.bad must accept *main.options as its second argument''))"
  by (simp add: run_defs loc_RunOpts mkFrame_def)

text \<open>
  Claim C2.  For a command whose arguments are \<open>NoArgs\<close>, \<open>validate\<close> on one token or
  more returns \<open>ErrUnusedArguments\<close>.  On no tokens it passes the first test, ranges
  over the one nil entry of \<open>NoArgs\<close> and panics reading \<open>v.Optional\<close>; \<open>RunOpts\<close>
  returns the error of that panic.
\<close>

theorem NoArgs_without_tokens_panics:
  "validate (newArgs (t # ts) NoArgs) = Returns (Some ErrUnusedArguments)
   \<and> validate (newArgs [] NoArgs) = Panics nilDeref
   \<and> fst (RunOpts (worldWith stackOfValidate) (Some [''status'']) None [cmdStatus])
     = Returns (Some (PanicRunningAt ''status'' ''arguments.go'' 47
         ''runtime error: invalid memory address or nil pointer dereference''))"
  by (simp add: run_defs loc_validate mkFrame_def)

lemma validateLoop_misplaced:
  "(hasOptional \<and> (\<exists>v \<in> set as. \<not> Optional v)) \<or> \<not> requiredFirst as \<Longrightarrow>
     \<exists>v \<in> set as. \<not> Optional v
        \<and> validateLoop (map Some as) hasOptional req
             = Returns (Inl (RequiredAfterOptional (Name v)))"
proof (induction as arbitrary: hasOptional req)
  case Nil
  then show ?case by simp
next
  case (Cons v vs)
  show ?case
  proof (cases "Optional v")
    case True
    with Cons.prems have "(True \<and> (\<exists>v \<in> set vs. \<not> Optional v)) \<or> \<not> requiredFirst vs"
      by (auto simp: list_all_iff)
    from Cons.IH [OF this, of req] True show ?thesis
      by auto
  next
    case False
    show ?thesis
    proof (cases hasOptional)
      case True
      with False show ?thesis by simp
    next
      case nh: False
      with False Cons.prems have "(False \<and> (\<exists>v \<in> set vs. \<not> Optional v)) \<or> \<not> requiredFirst vs"
        by simp
      from Cons.IH [OF this, of "Suc req"] False nh show ?thesis
        by auto
    qed
  qed
qed

lemma validate_misplaced:
  assumes "cmd_Args a = map Some as" and "\<not> requiredFirst as"
  shows "\<exists>v \<in> set as. \<not> Optional v
           \<and> validate a = Returns (Some (RequiredAfterOptional (Name v)))"
proof -
  from validateLoop_misplaced [of False as 0] assms(2)
  obtain v where v: "v \<in> set as" "\<not> Optional v"
    "validateLoop (map Some as) False 0 = Returns (Inl (RequiredAfterOptional (Name v)))"
    by blast
  then have "validate a = Returns (Some (RequiredAfterOptional (Name v)))"
    using assms(1) by (simp add: validate_def map_Some_not_NoArgs)
  with v show ?thesis by blast
qed

text \<open>
  What the code does with an ill-formed sequence.  When a required argument stands after
  an optional one in a sequence of \<open>Argument\<close>s, \<open>validate\<close> fails whatever the tokens
  are, with an error value that names a required argument; and whenever \<open>RunOpts\<close>
  reaches the validation for such a command, it returns that error to its caller and
  writes nothing.
\<close>

lemma required_after_optional_returned:
  assumes "i < j" and "j < length as" and "Optional (as ! i)" and "\<not> Optional (as ! j)"
  shows "(cmd_Args a = map Some as
          \<longrightarrow> (\<exists>v \<in> set as. \<not> Optional v
                \<and> validate a = Returns (Some (RequiredAfterOptional (Name v)))))
     \<and> (dumpHelpVar w = [] \<and> tokensOf w argv = Returns ts
          \<and> parseGlobalOptions w ts opts = Returns (Inr (name # cmdArgs, gv))
          \<and> callBeforeFunc opts gv = Returns None \<and> additionalCommands opts = Returns extra
          \<and> name \<noteq> ''help'' \<and> commandByName (commands @ extra) name = Some c
          \<and> Func c = Fn fname ins outs body \<and> validateCmdFuncReturn fname outs = None
          \<and> parseCmdOptions w name c cmdArgs = Returns (Inr (cmdArgs', optsVal))
          \<and> validateCmdFuncInput fname ins optsVal = None
          \<and> callFunc opts c gv = Returns None \<and> Cmd_Args c = map Some as
        \<longrightarrow> (\<exists>v \<in> set as. \<not> Optional v
              \<and> RunOpts w argv opts commands
                  = (Returns (Some (RequiredAfterOptional (Name v))), [])))"
proof -
  have bad: "\<not> requiredFirst as"
    using assms requiredFirst_iff [of as] by blast
  have first: "\<exists>v \<in> set as. \<not> Optional v
      \<and> validate a = Returns (Some (RequiredAfterOptional (Name v)))"
    if "cmd_Args a = map Some as"
    using validate_misplaced [OF that bad] .
  have second: "\<exists>v \<in> set as. \<not> Optional v
      \<and> RunOpts w argv opts commands
          = (Returns (Some (RequiredAfterOptional (Name v))), [])"
    if h: "dumpHelpVar w = []" "tokensOf w argv = Returns ts"
      "parseGlobalOptions w ts opts = Returns (Inr (name # cmdArgs, gv))"
      "callBeforeFunc opts gv = Returns None" "additionalCommands opts = Returns extra"
      "name \<noteq> ''help''" "commandByName (commands @ extra) name = Some c"
      and k: "Func c = Fn fname ins outs body" "validateCmdFuncReturn fname outs = None"
      "parseCmdOptions w name c cmdArgs = Returns (Inr (cmdArgs', optsVal))"
      "validateCmdFuncInput fname ins optsVal = None"
      "callFunc opts c gv = Returns None"
      and m: "Cmd_Args c = map Some as"
  proof -
    have "cmd_Args (newArgs cmdArgs' (Cmd_Args c)) = map Some as"
      using m by (simp add: newArgs_def)
    from validate_misplaced [OF this bad]
    obtain v where v: "v \<in> set as" "\<not> Optional v"
      "validate (newArgs cmdArgs' (Cmd_Args c))
         = Returns (Some (RequiredAfterOptional (Name v)))"
      by blast
    have "RunOpts w argv opts commands
        = (Returns (Some (RequiredAfterOptional (Name v))), [])"
      using RunOpts_found [OF h] runCommand_validate_error [OF k v(3)]
      by (simp add: recoverRun_return)
    with v show ?thesis by blast
  qed
  show ?thesis
    using first second by blast
qed

text \<open>
  Claim C3.  A command declares the required argument \<open>src\<close> after the optional
  \<open>mode\<close>.  \<open>validate\<close> fails on no token and on two tokens alike; but the failure
  is an error value, and the run of the command ends with \<open>RunOpts\<close> returning that
  error: it does not panic, and nothing is written to the standard error stream.
\<close>

theorem required_after_optional_not_fatal:
  "validate (newArgs [] (Cmd_Args cmdCopy)) = Returns (Some (RequiredAfterOptional ''src''))
   \<and> validate (newArgs [''a'', ''b''] (Cmd_Args cmdCopy))
       = Returns (Some (RequiredAfterOptional ''src''))
   \<and> RunOpts (worldWith []) (Some [''copy'', ''a'', ''b'']) None [cmdCopy]
       = (Returns (Some (RequiredAfterOptional ''src'')), [])"
  by (simp add: run_defs)

end
